theory Spec2Isabelle
  imports Main
begin

section \<open>Python values and errors\<close>

text \<open>
  The repository is a Python package that builds, signs, decodes and validates
  line-oriented authentication tokens. Python strings are modelled as \<open>string\<close>
  (characters are code points below 256), Python integers as \<open>int\<close>, and every
  \<^verbatim>\<open>raise\<close> of the source as a value of the type \<open>error\<close>: one constructor for
  each \<^verbatim>\<open>ValueError\<close> message of the package and one for each built-in exception
  that can escape from it.
\<close>

datatype error =
    TokenRequired              \<comment> \<open>ValueError: Token required.\<close>
  | NotBase64                  \<comment> \<open>ValueError: Token malformed (must be base64 encoded)\<close>
  | UnparsableJSON             \<comment> \<open>ValueError: Token malformed (unparsable JSON)\<close>
  | EmptyMessage               \<comment> \<open>ValueError: Token malformed (empty message)\<close>
  | EmptySignature             \<comment> \<open>ValueError: Token malformed (empty signature)\<close>
  | MissingVersion             \<comment> \<open>ValueError: Token malformed (missing version)\<close>
  | UnsupportedVersion         \<comment> \<open>ValueError: Tokens version 1 are not supported ...\<close>
  | BodyDamaged                \<comment> \<open>ValueError: Decrypted body is damaged\<close>
  | TokenExpired               \<comment> \<open>ValueError: Token expired\<close>
  | NotYetValid                \<comment> \<open>ValueError: It's not yet time to use the token\<close>
  | InappropriateDomain        \<comment> \<open>ValueError: Inappropriate token domain\<close>
  | OptionHasLF string         \<comment> \<open>ValueError: "key" option cannot have LF\<close>
  | InvalidDomain              \<comment> \<open>ValueError: Invalid domain format (must be example.com)\<close>
  | InvalidUri                 \<comment> \<open>ValueError: Invalid uri format ...\<close>
  | ChainIdNotInt              \<comment> \<open>ValueError: chain_id must be an int\<close>
  | ExpirationTimeNotDatetime  \<comment> \<open>ValueError: expiration_time must be an instance of datetime\<close>
  | NotBeforeNotDatetime       \<comment> \<open>ValueError: not_before must be an instance of datetime\<close>
  | ExpiresInInvalid           \<comment> \<open>ValueError: "expires_in" argument should be ...\<close>
  | SignerNotString            \<comment> \<open>ValueError: "signer" argument should be a function ...\<close>
  | IndexError
  | KeyError
  | TypeError
  | AttributeError
  | OverflowError
  | InvalidHex                 \<comment> \<open>the ValueError of bytes.fromhex\<close>
  | InvalidIsoformat           \<comment> \<open>the ValueError of datetime.fromisoformat\<close>
  | FloatNotFinite             \<comment> \<open>int() of nan or of an infinity\<close>
  | RecoverFailed              \<comment> \<open>an exception of the address-recovery capability\<close>
  | SignerRaised               \<comment> \<open>an exception of the signer capability\<close>

text \<open>
  A float is a dyadic rational \<open>m * 2 ^ e\<close>, an infinity or a nan. A datetime is
  a count of microseconds since 0001-01-01T00:00:00 and, when it is offset-aware, its
  UTC offset; \<^verbatim>\<open>datetime.now()\<close> is offset-naive.
\<close>

datatype pyfloat = Float int int | FInf bool | FNaN

datatype datetime = Datetime (ticks: int) (utcoffset: "int option")

datatype pyval =
    PNone
  | PBool bool
  | PInt int
  | PFloat pyfloat
  | PStr string
  | PDatetime datetime

fun truthy :: "pyval \<Rightarrow> bool" where
  "truthy PNone = False"
| "truthy (PBool b) = b"
| "truthy (PInt i) = (i \<noteq> 0)"
| "truthy (PFloat (Float m e)) = (m \<noteq> 0)"
| "truthy (PFloat (FInf s)) = True"
| "truthy (PFloat FNaN) = True"
| "truthy (PStr s) = (s \<noteq> [])"
| "truthy (PDatetime d) = True"

text \<open>The truth value of an \<^verbatim>\<open>Optional[str]\<close>: None and the empty string are false.\<close>

fun truthy_str :: "string option \<Rightarrow> bool" where
  "truthy_str None = False"
| "truthy_str (Some s) = (s \<noteq> [])"

section \<open>String operations of the Python library\<close>

definition LF :: char where
  "LF = CHR 0x0A"

text \<open>\<^verbatim>\<open>str.isspace\<close> on one character, which is also the class \<^verbatim>\<open>\s\<close> of \<^verbatim>\<open>re\<close>.\<close>

definition is_space :: "char \<Rightarrow> bool" where
  "is_space c = ((of_char c :: nat) \<in> {9, 10, 11, 12, 13, 28, 29, 30, 31, 32, 133, 160})"

definition is_digit :: "char \<Rightarrow> bool" where
  "is_digit c = (c \<in> set ''0123456789'')"

definition is_lower_alpha :: "char \<Rightarrow> bool" where
  "is_lower_alpha c = (c \<in> set ''abcdefghijklmnopqrstuvwxyz'')"

definition is_upper_alpha :: "char \<Rightarrow> bool" where
  "is_upper_alpha c = (c \<in> set ''ABCDEFGHIJKLMNOPQRSTUVWXYZ'')"

definition lower_char :: "char \<Rightarrow> char" where
  "lower_char c =
     (case map_of (zip ''ABCDEFGHIJKLMNOPQRSTUVWXYZ'' ''abcdefghijklmnopqrstuvwxyz'') c of
        Some d \<Rightarrow> d
      | None \<Rightarrow> c)"

definition lower :: "string \<Rightarrow> string" where
  "lower s = map lower_char s"

text \<open>\<^verbatim>\<open>s.split(c)\<close> for a one-character separator: never an empty list.\<close>

fun str_split :: "char \<Rightarrow> string \<Rightarrow> string list" where
  "str_split c [] = [[]]"
| "str_split c (x # xs) =
     (if x = c then [] # str_split c xs
      else (case str_split c xs of
              [] \<Rightarrow> [[x]]
            | l # ls \<Rightarrow> (x # l) # ls))"

text \<open>\<^verbatim>\<open>sep.join(xs)\<close>.\<close>

fun str_join :: "string \<Rightarrow> string list \<Rightarrow> string" where
  "str_join sep [] = []"
| "str_join sep [x] = x"
| "str_join sep (x # y # ys) = x @ sep @ str_join sep (y # ys)"

definition startswith :: "string \<Rightarrow> string \<Rightarrow> bool" where
  "startswith s p = (take (length p) s = p)"

definition endswith :: "string \<Rightarrow> string \<Rightarrow> bool" where
  "endswith s p = (length p \<le> length s \<and> drop (length s - length p) s = p)"

text \<open>
  \<^verbatim>\<open>s.replace(old, new)\<close>: every occurrence of \<open>old\<close>, leftmost first and without
  overlap. The package calls it with non-empty \<open>old\<close> only.
\<close>

fun str_replace :: "string \<Rightarrow> string \<Rightarrow> string \<Rightarrow> string" where
  "str_replace old new [] = []"
| "str_replace old new (c # cs) =
     (if old \<noteq> [] \<and> take (length old) (c # cs) = old
      then new @ str_replace old new (drop (length old - 1) cs)
      else c # str_replace old new cs)"

definition strip :: "string \<Rightarrow> string" where
  "strip s = rev (dropWhile is_space (rev (dropWhile is_space s)))"

text \<open>\<^verbatim>\<open>int(s)\<close> and \<^verbatim>\<open>str(i)\<close> on decimal digits.\<close>

definition digit_val :: "char \<Rightarrow> int" where
  "digit_val c = int (of_char c) - 48"

definition int_of_digits :: "string \<Rightarrow> int" where
  "int_of_digits s = foldl (\<lambda>a c. 10 * a + digit_val c) 0 s"

fun str_nat :: "nat \<Rightarrow> string" where
  "str_nat n =
     (if n < 10 then [''0123456789'' ! n]
      else str_nat (n div 10) @ [''0123456789'' ! (n mod 10)])"

declare str_nat.simps [simp del]

definition str_int :: "int \<Rightarrow> string" where
  "str_int i = (if i < 0 then CHR ''-'' # str_nat (nat (- i)) else str_nat (nat i))"

section \<open>Regular expressions\<close>

text \<open>
  The patterns of the package are matched with Brzozowski derivatives. A pattern
  anchored with \<^verbatim>\<open>^\<close> and \<^verbatim>\<open>$\<close> matches the whole string or the string without one
  final line feed, as \<^verbatim>\<open>$\<close> does in Python.
\<close>

datatype rexp =
    Void
  | Eps
  | Sym "char \<Rightarrow> bool"
  | Seq rexp rexp
  | Alt rexp rexp
  | Star rexp

fun nullable :: "rexp \<Rightarrow> bool" where
  "nullable Void = False"
| "nullable Eps = True"
| "nullable (Sym p) = False"
| "nullable (Seq r s) = (nullable r \<and> nullable s)"
| "nullable (Alt r s) = (nullable r \<or> nullable s)"
| "nullable (Star r) = True"

fun deriv :: "char \<Rightarrow> rexp \<Rightarrow> rexp" where
  "deriv c Void = Void"
| "deriv c Eps = Void"
| "deriv c (Sym p) = (if p c then Eps else Void)"
| "deriv c (Seq r s) =
     (if nullable r then Alt (Seq (deriv c r) s) (deriv c s) else Seq (deriv c r) s)"
| "deriv c (Alt r s) = Alt (deriv c r) (deriv c s)"
| "deriv c (Star r) = Seq (deriv c r) (Star r)"

fun matches :: "rexp \<Rightarrow> string \<Rightarrow> bool" where
  "matches r [] = nullable r"
| "matches r (c # cs) = matches (deriv c r) cs"

definition Plus :: "rexp \<Rightarrow> rexp" where
  "Plus r = Seq r (Star r)"

definition re_match_anchored :: "rexp \<Rightarrow> string \<Rightarrow> bool" where
  "re_match_anchored r s = (matches r s \<or> (s \<noteq> [] \<and> last s = LF \<and> matches r (butlast s)))"

section \<open>timespan.py\<close>

text \<open>The pattern \<^verbatim>\<open>^(\d+)([dhms]{1,2})$\<close>.\<close>

definition is_unit_char :: "char \<Rightarrow> bool" where
  "is_unit_char c = (c \<in> set ''dhms'')"

definition ms_pattern :: rexp where
  "ms_pattern = Seq (Plus (Sym is_digit)) (Seq (Sym is_unit_char) (Alt Eps (Sym is_unit_char)))"

definition multipliers :: "(string \<times> int) list" where
  "multipliers =
     [(''d'', 86400000), (''h'', 3600000), (''m'', 60000), (''s'', 1000), (''ms'', 1)]"

text \<open>
  \<^verbatim>\<open>ms(val)\<close>: None when the pattern does not match. The two groups are the leading
  digits and the unit letters after them; a unit that is no key of \<open>multipliers\<close>
  is looked up with the default 0.
\<close>

definition ms :: "string \<Rightarrow> int option" where
  "ms val =
     (let v = lower val in
      if \<not> re_match_anchored ms_pattern v then None
      else
        let number = takeWhile is_digit v;
            unit = takeWhile is_unit_char (dropWhile is_digit v)
        in Some (int_of_digits number *
                 (case map_of multipliers unit of None \<Rightarrow> 0 | Some m \<Rightarrow> m)))"

text \<open>
  \<^verbatim>\<open>datetime.now() + timedelta(...)\<close>: the sum is a datetime between year 1 and year
  9999, or the addition raises OverflowError (so does a timedelta beyond a billion
  days, whose sum is out of range as well).
\<close>

definition max_ticks :: int where
  "max_ticks = 3652059 * 86400000000"

definition add_micros :: "int \<Rightarrow> int \<Rightarrow> error + datetime" where
  "add_micros now us =
     (if 0 \<le> now + us \<and> now + us < max_ticks then Inr (Datetime (now + us) None)
      else Inl OverflowError)"

text \<open>
  \<^verbatim>\<open>timespan(val)\<close>, given the reading \<open>now\<close> of the clock and the microseconds
  that \<^verbatim>\<open>timedelta(milliseconds=f)\<close> rounds a float to (None when it raises).
\<close>

fun timespan :: "(pyfloat \<Rightarrow> int option) \<Rightarrow> int \<Rightarrow> pyval \<Rightarrow> error + datetime" where
  "timespan td now (PStr s) =
     (case ms s of
        None \<Rightarrow> Inl ExpiresInInvalid
      | Some milliseconds \<Rightarrow> add_micros now (1000 * milliseconds))"
| "timespan td now (PInt i) = add_micros now (1000 * i)"
| "timespan td now (PBool b) = add_micros now (1000 * (if b then 1 else 0))"
| "timespan td now (PFloat f) =
     (case td f of None \<Rightarrow> Inl OverflowError | Some us \<Rightarrow> add_micros now us)"
| "timespan td now PNone = Inl ExpiresInInvalid"
| "timespan td now (PDatetime d) = Inl ExpiresInInvalid"

section \<open>message_parser.py and the parsing half of verify.py\<close>

type_synonym MessageSections = "string list list"

text \<open>
  \<^verbatim>\<open>split_sections\<close>: the loop appends an empty group at an empty line and appends
  any other line to the last group.
\<close>

definition split_step :: "MessageSections \<Rightarrow> string \<Rightarrow> MessageSections" where
  "split_step sections line =
     (if line = [] then sections @ [[]]
      else sections[length sections - 1 := sections ! (length sections - 1) @ [line]])"

definition split_sections :: "string list \<Rightarrow> MessageSections" where
  "split_sections lines = foldl split_step [[]] lines"

definition banner_suffix :: string where
  "banner_suffix = '' wants you to sign in with your Ethereum account.''"

definition extract_token_domain :: "MessageSections \<Rightarrow> error + string option" where
  "extract_token_domain sections =
     (case sections of
        [] \<Rightarrow> Inl IndexError
      | first # _ \<Rightarrow>
          if first = [] then Inr None
          else
            let last_line = last first in
            if endswith last_line banner_suffix
            then Inr (Some (strip (str_replace banner_suffix [] last_line)))
            else Inr None)"

text \<open>\<^verbatim>\<open>group[0]\<close>.\<close>

fun first_line :: "string list \<Rightarrow> error + string option" where
  "first_line [] = Inl IndexError"
| "first_line (l # ls) = Inr (Some l)"

definition extract_token_statement :: "MessageSections \<Rightarrow> error + string option" where
  "extract_token_statement sections =
     (case (if length sections = 2
            then (case extract_token_domain sections of
                    Inl e \<Rightarrow> Inl e
                  | Inr d \<Rightarrow> Inr (\<not> truthy_str d))
            else Inr False) of
        Inl e \<Rightarrow> Inl e
      | Inr True \<Rightarrow> first_line (sections ! 0)
      | Inr False \<Rightarrow>
          if length sections = 3 then first_line (sections ! 1) else Inr None)"

text \<open>
  A Python dict is a list of items in insertion order with distinct keys:
  assignment replaces the value of a present key where it stands and appends a new
  key; lookup is \<open>map_of\<close>.
\<close>

fun dict_set :: "('k \<times> 'v) list \<Rightarrow> 'k \<Rightarrow> 'v \<Rightarrow> ('k \<times> 'v) list" where
  "dict_set [] k v = [(k, v)]"
| "dict_set ((k', v') # d) k v =
     (if k' = k then (k', v) # d else (k', v') # dict_set d k v)"

definition dict_del :: "('k \<times> 'v) list \<Rightarrow> 'k \<Rightarrow> ('k \<times> 'v) list" where
  "dict_del d k = filter (\<lambda>item. fst item \<noteq> k) d"

definition bind_result :: "error + 'a \<Rightarrow> ('a \<Rightarrow> error + 'b) \<Rightarrow> error + 'b" where
  "bind_result m f = (case m of Inl e \<Rightarrow> Inl e | Inr x \<Rightarrow> f x)"

fun fold_result :: "('a \<Rightarrow> 'b \<Rightarrow> error + 'a) \<Rightarrow> 'a \<Rightarrow> 'b list \<Rightarrow> error + 'a" where
  "fold_result f a [] = Inr a"
| "fold_result f a (x # xs) = bind_result (f a x) (\<lambda>a'. fold_result f a' xs)"

text \<open>\<^verbatim>\<open>parse_as_headers\<close>: one loop step per line of the text.\<close>

definition header_step :: "(string \<times> string) list \<Rightarrow> string \<Rightarrow> (string \<times> string) list" where
  "header_step headers line =
     (if CHR '':'' \<in> set line
      then dict_set headers
             (strip (takeWhile (\<lambda>c. c \<noteq> CHR '':'') line))
             (strip (tl (dropWhile (\<lambda>c. c \<noteq> CHR '':'') line)))
      else headers)"

definition parse_as_headers :: "string \<Rightarrow> (string \<times> string) list" where
  "parse_as_headers text = foldl header_step [] (str_split LF text)"

text \<open>
  The loop of \<^verbatim>\<open>parse_body\<close> over a snapshot of the keys, which moves the value
  of a key with spaces to the hyphenated key.
\<close>

definition hyphenate_step ::
  "(string \<times> string) list \<Rightarrow> string \<Rightarrow> error + (string \<times> string) list" where
  "hyphenate_step headers key =
     (let hyphenated_key = str_replace '' '' ''-'' key in
      if hyphenated_key \<noteq> key
      then (case map_of headers key of
              None \<Rightarrow> Inl KeyError
            | Some v \<Rightarrow> Inr (dict_del (dict_set headers hyphenated_key v) key))
      else Inr headers)"

definition required_fields :: "string list" where
  "required_fields = [''issued-at'', ''expiration-time'', ''web3-token-version'']"

definition snake_step :: "(string \<times> string) list \<Rightarrow> string \<times> string \<Rightarrow> (string \<times> string) list" where
  "snake_step result item = dict_set result (str_replace ''-'' ''_'' (fst item)) (snd item)"

definition set_if_truthy ::
  "string \<Rightarrow> string option \<Rightarrow> (string \<times> string) list \<Rightarrow> (string \<times> string) list" where
  "set_if_truthy key value result =
     (case value of
        None \<Rightarrow> result
      | Some v \<Rightarrow> if v \<noteq> [] then dict_set result key v else result)"

definition parse_body :: "string list \<Rightarrow> error + (string \<times> string) list" where
  "parse_body lines =
     (let body_sections = split_sections lines in
      bind_result (if body_sections = [] then Inl IndexError
                   else Inr (str_join [LF] (last body_sections)))
        (\<lambda>main_body_section.
      bind_result (let parsed = parse_as_headers main_body_section
                   in fold_result hyphenate_step parsed (map fst parsed))
        (\<lambda>parsed_headers.
      bind_result (extract_token_domain body_sections) (\<lambda>token_domain.
      bind_result (extract_token_statement body_sections) (\<lambda>token_statement.
      if \<not> list_all (\<lambda>field. map_of parsed_headers field \<noteq> None) required_fields
      then Inl BodyDamaged
      else Inr (set_if_truthy ''statement'' token_statement
                 (set_if_truthy ''domain'' token_domain
                   (foldl snake_step [] parsed_headers))))))))"

section \<open>The capabilities outside the package\<close>

datatype json =
    JNull
  | JBool bool
  | JInt int
  | JFloat pyfloat
  | JStr string
  | JArr "json list"
  | JObj "(string \<times> json) list"

fun truthy_json :: "json \<Rightarrow> bool" where
  "truthy_json JNull = False"
| "truthy_json (JBool b) = b"
| "truthy_json (JInt i) = (i \<noteq> 0)"
| "truthy_json (JFloat f) = truthy (PFloat f)"
| "truthy_json (JStr s) = (s \<noteq> [])"
| "truthy_json (JArr xs) = (xs \<noteq> [])"
| "truthy_json (JObj kvs) = (kvs \<noteq> [])"

text \<open>
  What the package calls and does not implement. A function that can raise returns
  \<open>None\<close> where it raises.
  \<^item> \<open>b64decode_utf8\<close>: \<^verbatim>\<open>base64.b64decode(token).decode('utf-8')\<close>;
  \<^item> \<open>json_loads\<close>: \<^verbatim>\<open>json.loads\<close>, None on JSONDecodeError;
  \<^item> \<open>bytes_fromhex\<close>: \<^verbatim>\<open>bytes.fromhex\<close>;
  \<^item> \<open>recover_message\<close>: \<^verbatim>\<open>encode_defunct(text=body)\<close> followed by
    \<^verbatim>\<open>w3.eth.account.recover_message\<close>;
  \<^item> \<open>fromisoformat\<close>, \<open>isoformat\<close>: the methods of \<^verbatim>\<open>datetime\<close>;
  \<^item> \<open>urlparse\<close>: the scheme and the netloc of \<^verbatim>\<open>urllib.parse.urlparse\<close>;
  \<^item> \<open>timedelta_of_float\<close>: the microseconds of \<^verbatim>\<open>timedelta(milliseconds=f)\<close>;
  \<^item> \<open>py_str\<close>: \<^verbatim>\<open>str\<close> of a value that is not a string;
  \<^item> \<open>b64encode_json\<close>: base64 of \<^verbatim>\<open>json.dumps({'signature': s, 'body': m})\<close>;
  \<^item> \<open>now k\<close>: the reading of \<^verbatim>\<open>datetime.now()\<close> at its \<open>k\<close>-th call (from 0)
    within one call of the package, in microseconds;
  \<^item> \<open>random_nonce\<close>: \<^verbatim>\<open>int(random.random() * 99999999)\<close>.
\<close>

record externals =
  b64decode_utf8 :: "string \<Rightarrow> string option"
  json_loads :: "string \<Rightarrow> json option"
  bytes_fromhex :: "string \<Rightarrow> nat list option"
  recover_message :: "json \<Rightarrow> nat list \<Rightarrow> string option"
  fromisoformat :: "string \<Rightarrow> datetime option"
  isoformat :: "datetime \<Rightarrow> string"
  urlparse :: "string \<Rightarrow> (string \<times> string) option"
  timedelta_of_float :: "pyfloat \<Rightarrow> int option"
  py_str :: "pyval \<Rightarrow> string"
  b64encode_json :: "string \<Rightarrow> string \<Rightarrow> string"
  now :: "nat \<Rightarrow> int"
  random_nonce :: int

section \<open>decrypt.py\<close>

record DecrypterResult =
  version :: int
  address :: string
  body :: string
  signature :: string

definition is_sep :: "char \<Rightarrow> bool" where
  "is_sep c = (is_space c \<or> c = CHR ''-'')"

definition strip_prefix :: "string \<Rightarrow> string \<Rightarrow> string option" where
  "strip_prefix p s = (if startswith s p then Some (drop (length p) s) else None)"

text \<open>
  The pattern \<^verbatim>\<open>Web3[\s-]+Token[\s-]+Version: \d\<close> at the start of a string: the
  text it matches there. No separator character starts the literal that follows a
  separator run, so the greedy runs are the longest ones.
\<close>

definition version_match_at :: "string \<Rightarrow> string option" where
  "version_match_at s =
     (case strip_prefix ''Web3'' s of
        None \<Rightarrow> None
      | Some r1 \<Rightarrow>
          if takeWhile is_sep r1 = [] then None
          else
            (case strip_prefix ''Token'' (dropWhile is_sep r1) of
               None \<Rightarrow> None
             | Some r2 \<Rightarrow>
                 if takeWhile is_sep r2 = [] then None
                 else
                   (case strip_prefix ''Version: '' (dropWhile is_sep r2) of
                      None \<Rightarrow> None
                    | Some r3 \<Rightarrow>
                        (case r3 of
                           [] \<Rightarrow> None
                         | d # _ \<Rightarrow>
                             if is_digit d
                             then Some (''Web3'' @ takeWhile is_sep r1 @ ''Token'' @
                                        takeWhile is_sep r2 @ ''Version: '' @ [d])
                             else None))))"

text \<open>\<^verbatim>\<open>re.search\<close>: the leftmost match.\<close>

fun version_search :: "string \<Rightarrow> string option" where
  "version_search [] = None"
| "version_search (c # cs) =
     (case version_match_at (c # cs) of
        Some m \<Rightarrow> Some m
      | None \<Rightarrow> version_search cs)"

definition get_version :: "string \<Rightarrow> error + int" where
  "get_version b =
     (case version_search b of
        None \<Rightarrow> Inl MissingVersion
      | Some m \<Rightarrow>
          let parts = str_split (CHR '':'') (str_replace '' '' [] m) in
          if 1 < length parts then Inr (int_of_digits (parts ! 1)) else Inl IndexError)"

text \<open>
  \<^verbatim>\<open>decrypt\<close>. The address is recovered before the version is read from the body.
\<close>

definition decrypt :: "externals \<Rightarrow> string \<Rightarrow> error + DecrypterResult" where
  "decrypt ext token =
     (if token = [] then Inl TokenRequired
      else
        (case b64decode_utf8 ext token of
           None \<Rightarrow> Inl NotBase64
         | Some base64_decoded \<Rightarrow>
             if base64_decoded = [] then Inl NotBase64
             else
               (case json_loads ext base64_decoded of
                  None \<Rightarrow> Inl UnparsableJSON
                | Some (JObj decoded_dict) \<Rightarrow>
                    (case map_of decoded_dict ''body'' of
                       None \<Rightarrow> Inl UnparsableJSON
                     | Some b \<Rightarrow>
                         (case map_of decoded_dict ''signature'' of
                            None \<Rightarrow> Inl UnparsableJSON
                          | Some sg \<Rightarrow>
                              if \<not> truthy_json b then Inl EmptyMessage
                              else if \<not> truthy_json sg then Inl EmptySignature
                              else
                                (case sg of
                                   JStr sig_str \<Rightarrow>
                                     (case bytes_fromhex ext
                                             (if startswith sig_str ''0x'' then drop 2 sig_str
                                              else sig_str) of
                                        None \<Rightarrow> Inl InvalidHex
                                      | Some signature_bytes \<Rightarrow>
                                          (case recover_message ext b signature_bytes of
                                             None \<Rightarrow> Inl RecoverFailed
                                           | Some addr \<Rightarrow>
                                               (case b of
                                                  JStr body_str \<Rightarrow>
                                                    bind_result (get_version body_str)
                                                      (\<lambda>v. Inr \<lparr>version = v,
                                                                 address = lower addr,
                                                                 body = body_str,
                                                                 signature = sig_str\<rparr>)
                                                | _ \<Rightarrow> Inl TypeError)))
                                 | _ \<Rightarrow> Inl AttributeError)))
                | Some _ \<Rightarrow> Inl TypeError)))"

section \<open>verify.py\<close>

record VerifyOpts =
  opts_domain :: "string option"

text \<open>
  A comparison of a parsed datetime with \<^verbatim>\<open>datetime.now()\<close>, which is
  offset-naive: Python raises TypeError when the parsed one is offset-aware.
\<close>

definition naive_ticks :: "datetime \<Rightarrow> error + int" where
  "naive_ticks d = (case utcoffset d of None \<Rightarrow> Inr (ticks d) | Some off \<Rightarrow> Inl TypeError)"

definition parse_time :: "externals \<Rightarrow> string \<Rightarrow> error + datetime" where
  "parse_time ext s =
     (case fromisoformat ext (str_replace ''Z'' ''+00:00'' s) of
        None \<Rightarrow> Inl InvalidIsoformat
      | Some d \<Rightarrow> Inr d)"

definition check_expiration :: "externals \<Rightarrow> (string \<times> string) list \<Rightarrow> error + unit" where
  "check_expiration ext parsed_body =
     (case map_of parsed_body ''expiration_time'' of
        None \<Rightarrow> Inl KeyError
      | Some s \<Rightarrow>
          bind_result (parse_time ext s) (\<lambda>expiration_time.
          bind_result (naive_ticks expiration_time) (\<lambda>t.
          if t < now ext 0 then Inl TokenExpired else Inr ())))"

definition check_not_before :: "externals \<Rightarrow> (string \<times> string) list \<Rightarrow> error + unit" where
  "check_not_before ext parsed_body =
     (if truthy_str (map_of parsed_body ''not_before'')
      then
        (case map_of parsed_body ''not_before'' of
           None \<Rightarrow> Inl KeyError
         | Some s \<Rightarrow>
             bind_result (parse_time ext s) (\<lambda>not_before.
             bind_result (naive_ticks not_before) (\<lambda>t.
             if now ext 1 < t then Inl NotYetValid else Inr ())))
      else Inr ())"

definition check_domain :: "VerifyOpts option \<Rightarrow> (string \<times> string) list \<Rightarrow> error + unit" where
  "check_domain opts parsed_body =
     (let opts_get_domain = (case opts of None \<Rightarrow> None | Some os \<Rightarrow> opts_domain os) in
      if truthy_str opts_get_domain \<and> opts_get_domain \<noteq> map_of parsed_body ''domain''
      then Inl InappropriateDomain
      else Inr ())"

text \<open>\<^verbatim>\<open>verify\<close> returns the address and the parsed body.\<close>

definition verify ::
  "externals \<Rightarrow> string \<Rightarrow> VerifyOpts option \<Rightarrow> error + string \<times> (string \<times> string) list" where
  "verify ext token opts =
     bind_result (decrypt ext token) (\<lambda>decrypted.
       if version decrypted = 1 then Inl UnsupportedVersion
       else
         bind_result (parse_body (str_split LF (body decrypted))) (\<lambda>parsed_body.
         bind_result (check_expiration ext parsed_body) (\<lambda>_.
         bind_result (check_not_before ext parsed_body) (\<lambda>_.
         bind_result (check_domain opts parsed_body) (\<lambda>_.
         Inr (address decrypted, parsed_body))))))"

section \<open>utils.py\<close>

text \<open>
  The pattern \<^verbatim>\<open>^[a-z0-9]+([-.]{1}[a-z0-9]+)*\.[a-z]{2,}$\<close>, matched ignoring case.
\<close>

definition is_alpha :: "char \<Rightarrow> bool" where
  "is_alpha c = (is_lower_alpha c \<or> is_upper_alpha c)"

definition is_alnum :: "char \<Rightarrow> bool" where
  "is_alnum c = (is_alpha c \<or> is_digit c)"

definition domain_regex :: rexp where
  "domain_regex =
     Seq (Plus (Sym is_alnum))
       (Seq (Star (Seq (Sym (\<lambda>c. c \<in> set ''-.'')) (Plus (Sym is_alnum))))
         (Seq (Sym (\<lambda>c. c = CHR ''.''))
           (Seq (Sym is_alpha) (Seq (Sym is_alpha) (Star (Sym is_alpha))))))"

fun is_valid_domain :: "pyval \<Rightarrow> bool" where
  "is_valid_domain (PStr s) = re_match_anchored domain_regex s"
| "is_valid_domain v = False"

fun is_url :: "externals \<Rightarrow> pyval \<Rightarrow> bool" where
  "is_url ext (PStr s) =
     (case urlparse ext s of
        None \<Rightarrow> False
      | Some (scheme, netloc) \<Rightarrow> scheme \<noteq> [] \<and> netloc \<noteq> [])"
| "is_url ext v = False"

section \<open>sign.py\<close>

text \<open>
  The options of \<^verbatim>\<open>sign\<close> are a dict of values of any type, in insertion order.
  The body that \<^verbatim>\<open>process_params\<close> builds has the field types that \<^verbatim>\<open>SignBody\<close>
  declares.
\<close>

type_synonym SignOpts = "(string \<times> pyval) list"

record SignBody =
  web3_token_version :: "string option"
  issued_at :: datetime
  expiration_time :: datetime
  not_before :: "datetime option"
  chain_id :: "int option"
  uri :: "string option"
  nonce :: "int option"
  request_id :: "string option"
  domain :: "string option"
  statement :: "string option"

fun is_str :: "pyval \<Rightarrow> bool" where
  "is_str (PStr s) = True"
| "is_str v = False"

text \<open>\<^verbatim>\<open>isinstance(v, (int, float))\<close>: a bool is an int.\<close>

fun is_number :: "pyval \<Rightarrow> bool" where
  "is_number (PInt i) = True"
| "is_number (PBool b) = True"
| "is_number (PFloat f) = True"
| "is_number v = False"

fun is_datetime :: "pyval \<Rightarrow> bool" where
  "is_datetime (PDatetime d) = True"
| "is_datetime v = False"

fun has_lf :: "pyval \<Rightarrow> bool" where
  "has_lf (PStr s) = (LF \<in> set s)"
| "has_lf v = False"

text \<open>The first loop of \<^verbatim>\<open>validate_params\<close>: the key of the first string with a line feed.\<close>

fun first_lf_key :: "SignOpts \<Rightarrow> string option" where
  "first_lf_key [] = None"
| "first_lf_key ((key, v) # items) = (if has_lf v then Some key else first_lf_key items)"

definition fails_check :: "SignOpts \<Rightarrow> string \<Rightarrow> (pyval \<Rightarrow> bool) \<Rightarrow> bool" where
  "fails_check params key ok =
     (case map_of params key of None \<Rightarrow> False | Some v \<Rightarrow> \<not> ok v)"

definition validate_params :: "externals \<Rightarrow> SignOpts \<Rightarrow> error + unit" where
  "validate_params ext params =
     (case first_lf_key params of
        Some key \<Rightarrow> Inl (OptionHasLF key)
      | None \<Rightarrow>
          if fails_check params ''domain'' (\<lambda>v. is_str v \<and> is_valid_domain v)
          then Inl InvalidDomain
          else if fails_check params ''uri'' (\<lambda>v. is_str v \<and> is_url ext v)
          then Inl InvalidUri
          else if fails_check params ''chain_id'' is_number
          then Inl ChainIdNotInt
          else if fails_check params ''expiration_time'' is_datetime
          then Inl ExpirationTimeNotDatetime
          else if fails_check params ''not_before'' is_datetime
          then Inl NotBeforeNotDatetime
          else Inr ())"

text \<open>\<^verbatim>\<open>int(v)\<close> of a number; a float is truncated towards zero.\<close>

fun int_of_number :: "pyval \<Rightarrow> error + int" where
  "int_of_number (PInt i) = Inr i"
| "int_of_number (PBool b) = Inr (if b then 1 else 0)"
| "int_of_number (PFloat (Float m e)) =
     Inr (if 0 \<le> e then m * 2 ^ nat e
          else if 0 \<le> m then m div 2 ^ nat (- e)
          else - ((- m) div 2 ^ nat (- e)))"
| "int_of_number (PFloat (FInf s)) = Inl FloatNotFinite"
| "int_of_number (PFloat FNaN) = Inl FloatNotFinite"
| "int_of_number v = Inl TypeError"

text \<open>
  One optional entry of the body: absent when the key is absent from the options.
\<close>

definition optional_field ::
  "SignOpts \<Rightarrow> string \<Rightarrow> (pyval \<Rightarrow> error + 'a option) \<Rightarrow> error + 'a option" where
  "optional_field params key conv =
     (case map_of params key of None \<Rightarrow> Inr None | Some v \<Rightarrow> conv v)"

text \<open>
  \<^verbatim>\<open>process_params\<close>, which \<^verbatim>\<open>sign\<close> calls on options that \<^verbatim>\<open>validate_params\<close> has
  accepted: \<open>domain\<close> and \<open>uri\<close> are strings, \<open>chain_id\<close> is a number,
  \<open>expiration_time\<close> and \<open>not_before\<close> are datetimes. On a value of another type
  the model has the exception that \<^verbatim>\<open>build_message\<close> would raise on it. A statement
  that is no string makes \<^verbatim>\<open>join\<close> raise TypeError when it is true, and is left out
  when it is false; a request id that is no string is formatted by \<^verbatim>\<open>str\<close>.
\<close>

definition process_params :: "externals \<Rightarrow> SignOpts \<Rightarrow> error + SignBody" where
  "process_params ext params =
     bind_result
       (case map_of params ''expiration_time'' of
          Some (PDatetime d) \<Rightarrow> Inr d
        | Some v \<Rightarrow>
            if truthy v then Inl AttributeError
            else timespan (timedelta_of_float ext) (now ext 1)
                   (case map_of params ''expires_in'' of None \<Rightarrow> PStr ''1d'' | Some e \<Rightarrow> e)
        | None \<Rightarrow>
            timespan (timedelta_of_float ext) (now ext 1)
              (case map_of params ''expires_in'' of None \<Rightarrow> PStr ''1d'' | Some e \<Rightarrow> e))
       (\<lambda>expiration.
     bind_result
       (optional_field params ''not_before''
          (\<lambda>v. case v of PDatetime d \<Rightarrow> Inr (Some d)
                | _ \<Rightarrow> if truthy v then Inl AttributeError else Inr None))
       (\<lambda>nb.
     bind_result
       (optional_field params ''chain_id''
          (\<lambda>v. bind_result (int_of_number v) (\<lambda>i. Inr (Some i))))
       (\<lambda>cid.
     bind_result
       (optional_field params ''uri''
          (\<lambda>v. case v of PStr s \<Rightarrow> Inr (Some s) | PNone \<Rightarrow> Inr None
                | _ \<Rightarrow> Inr (Some (py_str ext v))))
       (\<lambda>u.
     bind_result
       (optional_field params ''request_id''
          (\<lambda>v. case v of PStr s \<Rightarrow> Inr (Some s) | PNone \<Rightarrow> Inr None
                | _ \<Rightarrow> Inr (Some (py_str ext v))))
       (\<lambda>rid.
     bind_result
       (optional_field params ''domain''
          (\<lambda>v. case v of PStr s \<Rightarrow> Inr (Some s)
                | _ \<Rightarrow> if truthy v then Inr (Some (py_str ext v)) else Inr None))
       (\<lambda>dom.
     bind_result
       (optional_field params ''statement''
          (\<lambda>v. case v of PStr s \<Rightarrow> Inr (Some s)
                | _ \<Rightarrow> if truthy v then Inl TypeError else Inr None))
       (\<lambda>stmt.
     Inr \<lparr>web3_token_version = Some ''2'',
          issued_at = Datetime (now ext 0) None,
          expiration_time = expiration,
          not_before = nb,
          chain_id = cid,
          uri = u,
          nonce = (case map_of params ''nonce'' of
                     None \<Rightarrow> None
                   | Some v \<Rightarrow> if truthy v then Some (random_nonce ext) else None),
          request_id = rid,
          domain = dom,
          statement = stmt\<rparr>)))))))"

text \<open>
  \<^verbatim>\<open>build_message\<close>: the list \<open>message\<close> grows by appending; \<open>param_labels\<close> is the
  dict of the source in its insertion order, each value already formatted.
\<close>

definition append_label :: "string list \<Rightarrow> string \<times> string option \<Rightarrow> string list" where
  "append_label message item =
     (case snd item of
        None \<Rightarrow> message
      | Some v \<Rightarrow> message @ [fst item @ '': '' @ v])"

definition param_labels :: "(datetime \<Rightarrow> string) \<Rightarrow> SignBody \<Rightarrow> (string \<times> string option) list" where
  "param_labels fmt params =
     [(''URI'', uri params),
      (''Web3 Token Version'', web3_token_version params),
      (''Chain ID'', map_option str_int (chain_id params)),
      (''Nonce'', map_option str_int (nonce params)),
      (''Issued At'', Some (fmt (issued_at params))),
      (''Expiration Time'', Some (fmt (expiration_time params))),
      (''Not Before'', map_option fmt (not_before params)),
      (''Request ID'', request_id params)]"

definition build_message :: "(datetime \<Rightarrow> string) \<Rightarrow> SignBody \<Rightarrow> string" where
  "build_message fmt params =
     (let message0 = [];
          message1 =
            (case domain params of
               None \<Rightarrow> message0
             | Some d \<Rightarrow> if d \<noteq> [] then message0 @ [d @ banner_suffix] @ [[]] else message0);
          message2 =
            (case statement params of
               None \<Rightarrow> message1
             | Some st \<Rightarrow> if st \<noteq> [] then message1 @ [st] @ [[]] else message1)
      in str_join [LF] (foldl append_label message2 (param_labels fmt params)))"

text \<open>
  \<^verbatim>\<open>sign\<close>. The signer returns a value, or \<open>None\<close> when it raises. Beside its
  result, the model returns the trace of the call: the message once it is built, and
  each message the signer was called on.
\<close>

datatype sign_arg = OptsStr string | OptsDict SignOpts

datatype event = MessageBuilt string | SignerCalled string

text \<open>The errors of \<^verbatim>\<open>validate_params\<close> for a line feed, a domain, a uri and a chain id.\<close>

fun is_validation_error :: "error \<Rightarrow> bool" where
  "is_validation_error (OptionHasLF key) = True"
| "is_validation_error InvalidDomain = True"
| "is_validation_error InvalidUri = True"
| "is_validation_error ChainIdNotInt = True"
| "is_validation_error e = False"

definition sign ::
  "externals \<Rightarrow> (string \<Rightarrow> pyval option) \<Rightarrow> sign_arg \<Rightarrow> (error + string) \<times> event list" where
  "sign ext signer opts =
     (let params = (case opts of OptsStr s \<Rightarrow> [(''expires_in'', PStr s)] | OptsDict d \<Rightarrow> d) in
      case validate_params ext params of
        Inl e \<Rightarrow> (Inl e, [])
      | Inr _ \<Rightarrow>
          (case process_params ext params of
             Inl e \<Rightarrow> (Inl e, [])
           | Inr b \<Rightarrow>
               let msg = build_message (isoformat ext) b in
               (case signer msg of
                  None \<Rightarrow> (Inl SignerRaised, [MessageBuilt msg, SignerCalled msg])
                | Some (PStr sg) \<Rightarrow>
                    (Inr (b64encode_json ext sg msg), [MessageBuilt msg, SignerCalled msg])
                | Some _ \<Rightarrow> (Inl SignerNotString, [MessageBuilt msg, SignerCalled msg]))))"

section \<open>The formats as the specification words them\<close>

text \<open>
  The specification of \<^verbatim>\<open>split_sections\<close>: a new group starts at every empty line,
  and the empty line is not kept.
\<close>

fun split_sections_spec :: "string list \<Rightarrow> MessageSections" where
  "split_sections_spec [] = [[]]"
| "split_sections_spec (l # ls) =
     (if l = [] then [] # split_sections_spec ls
      else (case split_sections_spec ls of
              [] \<Rightarrow> [[l]]
            | g # gs \<Rightarrow> (l # g) # gs))"

text \<open>The lines that a list of groups stands for: one empty line between two groups.\<close>

fun join_sections :: "MessageSections \<Rightarrow> string list" where
  "join_sections [] = []"
| "join_sections [g] = g"
| "join_sections (g # h # gs) = g @ [] # join_sections (h # gs)"

text \<open>
  The specification of the canonical message: the banner and a blank line when the
  domain is set (to a string that is not empty), the statement and a blank line when
  it is set (likewise), then one line for each header whose value is not None, in
  the fixed order.
\<close>

definition header_line :: "string \<Rightarrow> string option \<Rightarrow> string list" where
  "header_line label value = (case value of None \<Rightarrow> [] | Some v \<Rightarrow> [label @ '': '' @ v])"

definition banner_lines :: "SignBody \<Rightarrow> string list" where
  "banner_lines p =
     (case domain p of
        None \<Rightarrow> []
      | Some d \<Rightarrow> if d = [] then [] else [d @ banner_suffix, []])"

definition statement_lines :: "SignBody \<Rightarrow> string list" where
  "statement_lines p =
     (case statement p of
        None \<Rightarrow> []
      | Some st \<Rightarrow> if st = [] then [] else [st, []])"

definition header_lines :: "(datetime \<Rightarrow> string) \<Rightarrow> SignBody \<Rightarrow> string list" where
  "header_lines fmt p =
     header_line ''URI'' (uri p) @
     header_line ''Web3 Token Version'' (web3_token_version p) @
     header_line ''Chain ID'' (map_option str_int (chain_id p)) @
     header_line ''Nonce'' (map_option str_int (nonce p)) @
     header_line ''Issued At'' (Some (fmt (issued_at p))) @
     header_line ''Expiration Time'' (Some (fmt (expiration_time p))) @
     header_line ''Not Before'' (map_option fmt (not_before p)) @
     header_line ''Request ID'' (request_id p)"

definition message_lines :: "(datetime \<Rightarrow> string) \<Rightarrow> SignBody \<Rightarrow> string list" where
  "message_lines fmt p = banner_lines p @ statement_lines p @ header_lines fmt p"

text \<open>
  The labels that \<^verbatim>\<open>build_message\<close> writes, and the key that \<^verbatim>\<open>parse_as_headers\<close>
  reads from a line with a colon.
\<close>

definition labels :: "string list" where
  "labels = [''URI'', ''Web3 Token Version'', ''Chain ID'', ''Nonce'', ''Issued At'',
             ''Expiration Time'', ''Not Before'', ''Request ID'']"

definition header_key :: "string \<Rightarrow> string" where
  "header_key line = strip (takeWhile (\<lambda>c. c \<noteq> CHR '':'') line)"

section \<open>Test doubles\<close>

text \<open>
  Capabilities for concrete runs: the token is its own decoded text, the JSON
  envelope holds that text as the body, every signature recovers one address, three
  timestamps are known (with the offset \<^verbatim>\<open>+00:00\<close> they are offset-aware), and the
  clock stands at the beginning of 2025.
\<close>

definition iso_table :: "(string \<times> int) list" where
  "iso_table =
     [(''2024-01-01T00:00:00'', 63839664000000000),
      (''2025-01-01T00:00:00'', 63871286400000000),
      (''2026-01-01T00:00:00'', 63902822400000000)]"

definition stub_externals :: externals where
  "stub_externals =
     \<lparr>b64decode_utf8 = Some,
      json_loads = (\<lambda>s. Some (JObj [(''signature'', JStr ''0x00''), (''body'', JStr s)])),
      bytes_fromhex = (\<lambda>s. Some []),
      recover_message = (\<lambda>b sg. Some ''0xAbC''),
      fromisoformat =
        (\<lambda>s. if endswith s ''+00:00''
             then map_option (\<lambda>t. Datetime t (Some 0))
                    (map_of iso_table (take (length s - 6) s))
             else map_option (\<lambda>t. Datetime t None) (map_of iso_table s)),
      isoformat =
        (\<lambda>d. case List.find (\<lambda>item. snd item = ticks d) iso_table of
               None \<Rightarrow> ''0001-01-01T00:00:00''
             | Some item \<Rightarrow> fst item),
      urlparse =
        (\<lambda>s. Some (takeWhile (\<lambda>c. c \<noteq> CHR '':'') s,
                     drop 3 (dropWhile (\<lambda>c. c \<noteq> CHR '':'') s))),
      timedelta_of_float = (\<lambda>f. None),
      py_str = (\<lambda>v. ''?''),
      b64encode_json = (\<lambda>sg m. m),
      now = (\<lambda>k. 63871286400000000),
      random_nonce = 7\<rparr>"

text \<open>The options of the package's own round-trip test, with fixed times.\<close>

definition test_options :: SignOpts where
  "test_options =
     [(''domain'', PStr ''iq.wiki''),
      (''statement'', PStr ''Test''),
      (''expiration_time'', PDatetime (Datetime 63902822400000000 None)),
      (''not_before'', PDatetime (Datetime 63839664000000000 None))]"

text \<open>The body that \<^verbatim>\<open>process_params\<close> makes of them when the clock stands at 2025.\<close>

definition test_body :: SignBody where
  "test_body =
     \<lparr>web3_token_version = Some ''2'',
      issued_at = Datetime 63871286400000000 None,
      expiration_time = Datetime 63902822400000000 None,
      not_before = Some (Datetime 63839664000000000 None),
      chain_id = None,
      uri = None,
      nonce = None,
      request_id = None,
      domain = Some ''iq.wiki'',
      statement = Some ''Test''\<rparr>"

text \<open>A body with lower-case header names, which \<^verbatim>\<open>parse_body\<close> accepts.\<close>

definition lower_case_body :: "string \<Rightarrow> string \<Rightarrow> string" where
  "lower_case_body expires starts =
     ''iq.wiki wants you to sign in with your Ethereum account.'' @ [LF, LF] @
     ''Web3 Token Version: 2'' @ [LF] @
     ''web3-token-version: 2'' @ [LF] @
     ''issued-at: 2024-01-01T00:00:00'' @ [LF] @
     ''expiration-time: '' @ expires @ [LF] @
     ''not-before: '' @ starts"

section \<open>Helper lemmas\<close>

lemma bind_result_Inr [simp]: "bind_result (Inr x) f = f x"
  by (simp add: bind_result_def)

lemma bind_result_Inl [simp]: "bind_result (Inl e) f = Inl e"
  by (simp add: bind_result_def)

subsection \<open>The loop of split_sections against its specification\<close>

lemma split_sections_spec_nonempty: "split_sections_spec ls \<noteq> []"
  by (induction ls) (auto split: list.splits)

lemma update_last: "acc \<noteq> [] \<Longrightarrow> acc[length acc - 1 := x] = butlast acc @ [x]"
  by (induction acc rule: rev_induct) (auto simp: list_update_append)

lemma split_step_empty: "split_step acc [] = acc @ [[]]"
  by (simp add: split_step_def)

lemma split_step_line:
  "acc \<noteq> [] \<Longrightarrow> l \<noteq> [] \<Longrightarrow> split_step acc l = butlast acc @ [last acc @ [l]]"
  using update_last [of acc "last acc @ [l]"] last_conv_nth [of acc]
  by (simp add: split_step_def)

lemma foldl_split_step:
  "acc \<noteq> [] \<Longrightarrow>
   foldl split_step acc ls =
     butlast acc @
       (case split_sections_spec ls of [] \<Rightarrow> [last acc] | g # gs \<Rightarrow> (last acc @ g) # gs)"
proof (induction ls arbitrary: acc)
  case Nil
  then show ?case by simp
next
  case (Cons l ls)
  obtain g gs where g: "split_sections_spec ls = g # gs"
    using split_sections_spec_nonempty [of ls] by (cases "split_sections_spec ls") auto
  show ?case
  proof (cases "l = []")
    case True
    have "foldl split_step (acc @ [[]]) ls = acc @ g # gs"
      using Cons.IH [of "acc @ [[]]"] g by simp
    with True Cons.prems g show ?thesis
      by (simp add: split_step_empty)
  next
    case False
    have "foldl split_step (butlast acc @ [last acc @ [l]]) ls =
            butlast acc @ ((last acc @ [l]) @ g) # gs"
      using Cons.IH [of "butlast acc @ [last acc @ [l]]"] g by simp
    with False Cons.prems g show ?thesis
      by (simp add: split_step_line)
  qed
qed

lemma split_sections_eq_spec: "split_sections ls = split_sections_spec ls"
  using foldl_split_step [of "[[]]" ls] split_sections_spec_nonempty [of ls]
  by (cases "split_sections_spec ls") (auto simp: split_sections_def)

lemma spec_length: "length (split_sections_spec ls) = Suc (length (filter (\<lambda>l. l = []) ls))"
  by (induction ls) (auto split: list.splits simp: split_sections_spec_nonempty)

lemma spec_concat: "concat (split_sections_spec ls) = filter (\<lambda>l. l \<noteq> []) ls"
  by (induction ls) (auto split: list.splits)

lemma spec_no_empty_line: "g \<in> set (split_sections_spec ls) \<Longrightarrow> [] \<notin> set g"
  by (induction ls arbitrary: g) (auto split: list.splits if_splits)

lemma spec_join: "join_sections (split_sections_spec ls) = ls"
proof (induction ls)
  case Nil
  then show ?case by simp
next
  case (Cons l ls)
  obtain g gs where g: "split_sections_spec ls = g # gs"
    using split_sections_spec_nonempty [of ls] by (cases "split_sections_spec ls") auto
  with Cons show ?case by (cases gs) auto
qed

lemma spec_single: "[] \<notin> set ls \<Longrightarrow> split_sections_spec ls = [ls]"
  by (induction ls) auto

subsection \<open>The steps of verify\<close>

lemma verify_after_parse:
  assumes "decrypt ext token = Inr d" and "version d \<noteq> 1"
    and "parse_body (str_split LF (body d)) = Inr pb"
  shows "verify ext token opts =
           bind_result (check_expiration ext pb) (\<lambda>_.
           bind_result (check_not_before ext pb) (\<lambda>_.
           bind_result (check_domain opts pb) (\<lambda>_. Inr (address d, pb))))"
  using assms by (simp add: verify_def)





text \<open>
  An offset-aware expiration time, which \<^verbatim>\<open>fromisoformat\<close> returns for a string
  with a UTC offset (a final \<^verbatim>\<open>Z\<close> is rewritten to one), cannot be compared with the
  offset-naive clock reading: the comparison raises TypeError.
\<close>

lemma check_expiration_aware:
  assumes "map_of pb ''expiration_time'' = Some es"
    and "fromisoformat ext (str_replace ''Z'' ''+00:00'' es) = Some (Datetime t (Some off))"
  shows "check_expiration ext pb = Inl TypeError"
  using assms by (simp add: check_expiration_def parse_time_def naive_ticks_def)

subsection \<open>The first loop of validate_params\<close>

lemma first_lf_key_None: "first_lf_key params = None \<longleftrightarrow> (\<forall>k v. (k, v) \<in> set params \<longrightarrow> \<not> has_lf v)"
  by (induction params) (auto split: if_splits)

lemma validate_params_rejects:
  assumes "(\<exists>k v. (k, v) \<in> set params \<and> has_lf v) \<or>
           fails_check params ''domain'' (\<lambda>v. is_str v \<and> is_valid_domain v) \<or>
           fails_check params ''uri'' (\<lambda>v. is_str v \<and> is_url ext v) \<or>
           fails_check params ''chain_id'' is_number"
  shows "\<exists>e. is_validation_error e \<and> validate_params ext params = Inl e"
proof (cases "first_lf_key params")
  case (Some key)
  then show ?thesis by (simp add: validate_params_def)
next
  case None
  with assms first_lf_key_None [of params]
  have "fails_check params ''domain'' (\<lambda>v. is_str v \<and> is_valid_domain v) \<or>
        fails_check params ''uri'' (\<lambda>v. is_str v \<and> is_url ext v) \<or>
        fails_check params ''chain_id'' is_number"
    by blast
  with None show ?thesis by (auto simp: validate_params_def)
qed

subsection \<open>The documented examples of the duration resolver\<close>

lemma ms_examples:
  "ms ''1d'' = Some 86400000" "ms ''24h'' = Some 86400000" "ms ''1ms'' = Some 1"
  "ms ''1.5d'' = None" "ms ''-1d'' = None" "ms ''1y'' = None" "ms ''d'' = None"
  by code_simp+

subsection \<open>A built message read back by parse_body\<close>

lemma str_split_no_sep: "c \<notin> set x \<Longrightarrow> str_split c x = [x]"
  by (induction x) auto

lemma str_split_append: "c \<notin> set x \<Longrightarrow> str_split c (x @ c # r) = x # str_split c r"
  by (induction x) auto

lemma str_split_join:
  "ls \<noteq> [] \<Longrightarrow> \<forall>l \<in> set ls. c \<notin> set l \<Longrightarrow> str_split c (str_join [c] ls) = ls"
proof (induction ls)
  case Nil
  then show ?case by simp
next
  case (Cons x ls)
  show ?case
  proof (cases ls)
    case Nil
    with Cons.prems show ?thesis by (simp add: str_split_no_sep)
  next
    case (Cons y ys)
    with Cons.prems Cons.IH show ?thesis by (simp add: str_split_append)
  qed
qed

lemma spec_group_then_blank:
  "x \<noteq> [] \<Longrightarrow> split_sections_spec (x # [] # rest) = [x] # split_sections_spec rest"
  by simp

lemma dict_set_keys: "fst ` set (dict_set d k v) = insert k (fst ` set d)"
proof (induction d)
  case Nil
  then show ?case by simp
next
  case (Cons a d)
  obtain k' v' where a: "a = (k', v')" by (cases a)
  show ?case
  proof (cases "k' = k")
    case True
    with a show ?thesis by simp
  next
    case False
    with a Cons.IH show ?thesis by (simp add: insert_commute)
  qed
qed

lemma dict_set_distinct: "distinct (map fst d) \<Longrightarrow> distinct (map fst (dict_set d k v))"
proof (induction d)
  case Nil
  then show ?case by simp
next
  case (Cons a d)
  then show ?case
    using dict_set_keys [of d k v] by (cases a) auto
qed

lemma dict_del_keys: "fst ` set (dict_del d k) = fst ` set d - {k}"
  by (auto simp: dict_del_def)

lemma header_step_keys: "fst ` set (header_step h l) \<subseteq> insert (header_key l) (fst ` set h)"
  by (auto simp: header_step_def header_key_def dict_set_keys)

lemma header_step_distinct: "distinct (map fst h) \<Longrightarrow> distinct (map fst (header_step h l))"
  by (simp add: header_step_def dict_set_distinct)

lemma foldl_header_step_keys:
  "fst ` set (foldl header_step h ls) \<subseteq> fst ` set h \<union> header_key ` set ls"
proof (induction ls arbitrary: h)
  case Nil
  then show ?case by simp
next
  case (Cons l ls)
  from Cons.IH [of "header_step h l"] header_step_keys [of h l] show ?case by auto
qed

lemma foldl_header_step_distinct:
  "distinct (map fst h) \<Longrightarrow> distinct (map fst (foldl header_step h ls))"
  by (induction ls arbitrary: h) (simp_all add: header_step_distinct)

lemma hyphenate_loop:
  "distinct ks \<Longrightarrow> set ks \<subseteq> fst ` set d \<Longrightarrow>
   \<exists>d'. fold_result hyphenate_step d ks = Inr d' \<and>
        fst ` set d' \<subseteq> fst ` set d \<union> str_replace '' '' ''-'' ` set ks"
proof (induction ks arbitrary: d)
  case Nil
  then show ?case by simp
next
  case (Cons k ks)
  from Cons.prems obtain v where v: "map_of d k = Some v"
    by (cases "map_of d k") (auto simp: map_of_eq_None_iff)
  show ?case
  proof (cases "str_replace '' '' ''-'' k = k")
    case True
    then have step: "hyphenate_step d k = Inr d"
      by (simp add: hyphenate_step_def)
    from Cons.IH [of d] Cons.prems obtain d' where
      d': "fold_result hyphenate_step d ks = Inr d'"
        "fst ` set d' \<subseteq> fst ` set d \<union> str_replace '' '' ''-'' ` set ks"
      by auto
    from step d'(1) have "fold_result hyphenate_step d (k # ks) = Inr d'"
      by simp
    moreover from d'(2) have
      "fst ` set d' \<subseteq> fst ` set d \<union> str_replace '' '' ''-'' ` set (k # ks)"
      by auto
    ultimately show ?thesis by blast
  next
    case False
    let ?d1 = "dict_del (dict_set d (str_replace '' '' ''-'' k) v) k"
    from False v have step: "hyphenate_step d k = Inr ?d1"
      by (simp add: hyphenate_step_def)
    have keys1: "fst ` set ?d1 = insert (str_replace '' '' ''-'' k) (fst ` set d) - {k}"
      by (simp add: dict_del_keys dict_set_keys)
    from Cons.prems have "set ks \<subseteq> fst ` set ?d1"
      unfolding keys1 by auto
    with Cons.IH [of ?d1] Cons.prems obtain d' where
      d': "fold_result hyphenate_step ?d1 ks = Inr d'"
        "fst ` set d' \<subseteq> fst ` set ?d1 \<union> str_replace '' '' ''-'' ` set ks"
      by auto
    from step d'(1) have "fold_result hyphenate_step d (k # ks) = Inr d'"
      by simp
    moreover from d'(2) have
      "fst ` set d' \<subseteq> fst ` set d \<union> str_replace '' '' ''-'' ` set (k # ks)"
      unfolding keys1 by auto
    ultimately show ?thesis by blast
  qed
qed

lemma header_line_key:
  assumes "CHR '':'' \<notin> set lab" and "strip lab = lab"
    and "l \<in> set (header_line lab val)"
  shows "header_key l = lab"
proof -
  from assms(3) obtain v where "l = lab @ CHR '':'' # CHR '' '' # v"
    by (cases val) (auto simp: header_line_def)
  moreover have "takeWhile (\<lambda>c. c \<noteq> CHR '':'') (lab @ CHR '':'' # CHR '' '' # v) = lab"
    using assms(1) by (induction lab) auto
  ultimately show ?thesis
    using assms(2) by (simp add: header_key_def)
qed

lemma labels_plain: "\<forall>lab \<in> set labels. CHR '':'' \<notin> set lab \<and> strip lab = lab"
  by (simp add: labels_def strip_def is_space_def)

lemma header_line_key_in_labels:
  assumes "lab \<in> set labels" and "l \<in> set (header_line lab val)"
  shows "header_key l \<in> set labels"
proof -
  from labels_plain assms(1) have "CHR '':'' \<notin> set lab" and "strip lab = lab"
    by blast+
  from header_line_key [OF this assms(2)] assms(1) show ?thesis
    by simp
qed

lemma header_lines_keys:
  assumes "l \<in> set (header_lines fmt p)"
  shows "header_key l \<in> set labels"
proof -
  from assms obtain lab val where "lab \<in> set labels" and "l \<in> set (header_line lab val)"
    unfolding header_lines_def labels_def by auto
  then show ?thesis
    by (rule header_line_key_in_labels)
qed

lemma header_lines_nonempty: "header_lines fmt p \<noteq> []"
  by (simp add: header_lines_def header_line_def)

lemma header_line_no_blank: "[] \<notin> set (header_line lab val)"
  by (cases val) (simp_all add: header_line_def)

lemma header_lines_no_blank: "[] \<notin> set (header_lines fmt p)"
  by (simp add: header_lines_def header_line_no_blank)

lemma labels_not_required:
  "k \<in> set labels \<union> str_replace '' '' ''-'' ` set labels \<Longrightarrow> k \<noteq> ''issued-at''"
  by (auto simp: labels_def)

lemma foldl_append_label:
  "foldl append_label message items =
     message @ concat (map (\<lambda>item. header_line (fst item) (snd item)) items)"
  by (induction items arbitrary: message)
     (simp_all add: append_label_def header_line_def split: option.splits)

lemma header_lines_param_labels:
  "header_lines fmt p =
     concat (map (\<lambda>item. header_line (fst item) (snd item)) (param_labels fmt p))"
  by (simp add: header_lines_def param_labels_def)

lemma build_message_eq_lines: "build_message fmt p = str_join [LF] (message_lines fmt p)"
  by (simp add: build_message_def message_lines_def banner_lines_def statement_lines_def
      foldl_append_label header_lines_param_labels split: option.splits)

lemma message_lines_nonempty: "message_lines fmt p \<noteq> []"
  by (simp add: message_lines_def header_lines_nonempty)

lemma message_lines_last: "last (message_lines fmt p) \<noteq> []"
proof -
  have "last (header_lines fmt p) \<in> set (header_lines fmt p)"
    using header_lines_nonempty by (rule last_in_set)
  with header_lines_no_blank [of fmt p] have "last (header_lines fmt p) \<noteq> []"
    by metis
  then show ?thesis
    by (simp add: message_lines_def header_lines_nonempty)
qed

text \<open>The sections of a canonical message: the last one is the header block, and every
  group that \<^verbatim>\<open>extract_token_statement\<close> indexes is non-empty.\<close>

lemma message_sections:
  "\<exists>pre. split_sections (message_lines fmt p) = pre @ [header_lines fmt p] \<and>
         length pre \<le> 2 \<and> (\<forall>g \<in> set pre. g \<noteq> [])"
proof -
  have hs: "split_sections_spec (header_lines fmt p) = [header_lines fmt p]"
    using header_lines_no_blank by (rule spec_single)
  have "\<exists>pre. split_sections_spec (message_lines fmt p) = pre @ [header_lines fmt p] \<and>
         length pre \<le> 2 \<and> (\<forall>g \<in> set pre. g \<noteq> [])"
    using hs
    by (auto simp: message_lines_def banner_lines_def statement_lines_def banner_suffix_def
        split: option.splits)
  then show ?thesis by (simp add: split_sections_eq_spec)
qed

lemma extract_token_domain_ok:
  "sections \<noteq> [] \<Longrightarrow> \<exists>dm. extract_token_domain sections = Inr dm"
  by (cases sections) (auto simp: extract_token_domain_def Let_def)

lemma extract_token_statement_ok:
  assumes "sections = pre @ [hs]" and "length pre \<le> 2" and "\<forall>g \<in> set pre. g \<noteq> []"
  shows "\<exists>st. extract_token_statement sections = Inr st"
proof -
  consider "pre = []" | a where "pre = [a]" | a b where "pre = [a, b]"
    using assms(2) by (cases pre rule: list.exhaust; cases "tl pre"; cases "tl (tl pre)") auto
  then show ?thesis
  proof cases
    case 1
    with assms show ?thesis by (simp add: extract_token_statement_def)
  next
    case 2
    with assms(3) obtain l ls where "a = l # ls" by (cases a) auto
    with 2 assms(1) extract_token_domain_ok [of sections] show ?thesis
      by (auto simp: extract_token_statement_def split: sum.splits bool.splits)
  next
    case 3
    with assms(3) obtain l ls where "b = l # ls" by (cases b) auto
    with 3 assms(1) show ?thesis by (simp add: extract_token_statement_def)
  qed
qed

lemma parsed_headers_of_message:
  assumes "\<forall>l \<in> set (header_lines fmt p). LF \<notin> set l"
  shows "\<exists>hd'. (let parsed = parse_as_headers (str_join [LF] (header_lines fmt p))
               in fold_result hyphenate_step parsed (map fst parsed)) = Inr hd' \<and>
              map_of hd' ''issued-at'' = None"
proof -
  let ?parsed = "parse_as_headers (str_join [LF] (header_lines fmt p))"
  have parsed: "?parsed = foldl header_step [] (header_lines fmt p)"
    using assms by (simp add: parse_as_headers_def str_split_join header_lines_nonempty)
  have keys: "fst ` set ?parsed \<subseteq> set labels"
    using foldl_header_step_keys [of "[]" "header_lines fmt p"] header_lines_keys [of _ fmt p]
    unfolding parsed by auto
  have "distinct (map fst ?parsed)"
    unfolding parsed by (rule foldl_header_step_distinct) simp
  from hyphenate_loop [OF this, of ?parsed] obtain hd' where
    hd': "fold_result hyphenate_step ?parsed (map fst ?parsed) = Inr hd'"
      "fst ` set hd' \<subseteq> fst ` set ?parsed \<union> str_replace '' '' ''-'' ` set (map fst ?parsed)"
    by auto
  moreover from keys have
    "str_replace '' '' ''-'' ` set (map fst ?parsed) \<subseteq> str_replace '' '' ''-'' ` set labels"
    by auto
  ultimately have "fst ` set hd' \<subseteq> set labels \<union> str_replace '' '' ''-'' ` set labels"
    using keys by blast
  with labels_not_required have "''issued-at'' \<notin> fst ` set hd'"
    by blast
  then have "map_of hd' ''issued-at'' = None"
    by (simp add: map_of_eq_None_iff)
  with hd'(1) show ?thesis by (simp add: Let_def)
qed

subsection \<open>Bodies with an empty group\<close>

lemma spec_append_blank:
  "[] \<notin> set g \<Longrightarrow> split_sections_spec (g @ [] # rest) = g # split_sections_spec rest"
  by (induction g) auto

lemma hyphenate_headers_ok:
  "\<exists>hd'. (let parsed = parse_as_headers text
          in fold_result hyphenate_step parsed (map fst parsed)) = Inr hd'"
proof -
  have "distinct (map fst (parse_as_headers text))"
    unfolding parse_as_headers_def by (rule foldl_header_step_distinct) simp
  from hyphenate_loop [OF this, of "parse_as_headers text"] show ?thesis
    by (auto simp: Let_def)
qed

lemma parse_body_empty_first_group:
  assumes "[] \<notin> set hs"
  shows "parse_body ([] # hs) = Inl IndexError"
proof -
  have s: "split_sections ([] # hs) = [[], hs]"
    using assms by (simp add: split_sections_eq_spec spec_single)
  obtain hd' where
    "(let parsed = parse_as_headers (str_join [LF] hs)
      in fold_result hyphenate_step parsed (map fst parsed)) = Inr hd'"
    using hyphenate_headers_ok by blast
  moreover have "extract_token_domain [[], hs] = Inr None"
    by (simp add: extract_token_domain_def)
  moreover have "extract_token_statement [[], hs] = Inl IndexError"
    by (simp add: extract_token_statement_def extract_token_domain_def)
  ultimately show ?thesis
    using s by (simp add: parse_body_def)
qed

lemma parse_body_empty_second_group:
  assumes "[] \<notin> set g" and "[] \<notin> set hs"
  shows "parse_body (g @ [] # [] # hs) = Inl IndexError"
proof -
  have s: "split_sections (g @ [] # [] # hs) = [g, [], hs]"
    using assms by (simp add: split_sections_eq_spec spec_append_blank spec_single)
  obtain hd' where
    "(let parsed = parse_as_headers (str_join [LF] hs)
      in fold_result hyphenate_step parsed (map fst parsed)) = Inr hd'"
    using hyphenate_headers_ok by blast
  moreover obtain dm where "extract_token_domain [g, [], hs] = Inr dm"
    using extract_token_domain_ok [of "[g, [], hs]"] by auto
  moreover have "extract_token_statement [g, [], hs] = Inl IndexError"
    by (simp add: extract_token_statement_def)
  ultimately show ?thesis
    using s by (simp add: parse_body_def)
qed

text \<open>
  The package's round-trip test in the model: \<^verbatim>\<open>sign\<close> returns a token for the test
  options, and \<^verbatim>\<open>verify\<close> rejects it.
\<close>

lemma roundtrip_test_options:
  "sign stub_externals (\<lambda>m. Some (PStr ''0x00'')) (OptsDict test_options) =
     (Inr (build_message (isoformat stub_externals) test_body),
      [MessageBuilt (build_message (isoformat stub_externals) test_body),
       SignerCalled (build_message (isoformat stub_externals) test_body)]) \<and>
   parse_body (str_split LF (build_message (isoformat stub_externals) test_body)) =
     Inl BodyDamaged \<and>
   verify stub_externals (build_message (isoformat stub_externals) test_body) None =
     Inl BodyDamaged"
  by code_simp

section \<open>The claims\<close>

text \<open>
  C1. Round trip: the claims that \<^verbatim>\<open>verify\<close> reconstructs from the token that
  \<^verbatim>\<open>sign\<close> produced reproduce every set field of the input, that is,
  \<^verbatim>\<open>parse_body\<close> on the lines of \<^verbatim>\<open>build_message(claims)\<close> recovers them.
  The code does not do this, for any claims. \<^verbatim>\<open>build_message\<close> writes the headers
  as \<^verbatim>\<open>Issued At\<close>, \<^verbatim>\<open>Expiration Time\<close> and \<^verbatim>\<open>Web3 Token Version\<close>;
  \<^verbatim>\<open>parse_body\<close> turns them into \<^verbatim>\<open>Issued-At\<close>, \<^verbatim>\<open>Expiration-Time\<close> and
  \<^verbatim>\<open>Web3-Token-Version\<close> and then looks for the lower-case keys
  \<^verbatim>\<open>issued-at\<close>, \<^verbatim>\<open>expiration-time\<close> and \<^verbatim>\<open>web3-token-version\<close> without
  lower-casing anything. So for every body whose rendered lines hold no line feed
  (which \<^verbatim>\<open>validate_params\<close> sees to), \<^verbatim>\<open>parse_body\<close> on the built message
  fails with "Decrypted body is damaged", and so does \<^verbatim>\<open>verify\<close> on every token
  that carries the message. Lemma \<open>roundtrip_test_options\<close> runs the package's own
  round-trip test.
\<close>

theorem build_message_never_parses:
  assumes "\<forall>l \<in> set (message_lines fmt p). LF \<notin> set l"
  shows "parse_body (str_split LF (build_message fmt p)) = Inl BodyDamaged \<and>
         (decrypt ext token = Inr d \<and> version d \<noteq> 1 \<and> body d = build_message fmt p \<longrightarrow>
            verify ext token opts = Inl BodyDamaged)"
proof -
  have lines: "str_split LF (build_message fmt p) = message_lines fmt p"
    using assms by (simp add: build_message_eq_lines str_split_join message_lines_nonempty)
  from message_sections [of fmt p] obtain pre where
    pre: "split_sections (message_lines fmt p) = pre @ [header_lines fmt p]"
      "length pre \<le> 2" "\<forall>g \<in> set pre. g \<noteq> []"
    by blast
  from assms have "\<forall>l \<in> set (header_lines fmt p). LF \<notin> set l"
    by (simp add: message_lines_def)
  from parsed_headers_of_message [OF this] obtain hd' where
    hd': "(let parsed = parse_as_headers (str_join [LF] (header_lines fmt p))
           in fold_result hyphenate_step parsed (map fst parsed)) = Inr hd'"
      "map_of hd' ''issued-at'' = None"
    by blast
  from pre(1) extract_token_domain_ok [of "pre @ [header_lines fmt p]"] obtain dm where
    dm: "extract_token_domain (split_sections (message_lines fmt p)) = Inr dm"
    by auto
  from extract_token_statement_ok [OF pre] obtain st where
    st: "extract_token_statement (split_sections (message_lines fmt p)) = Inr st"
    by auto
  have pbody: "parse_body (message_lines fmt p) = Inl BodyDamaged"
    using pre(1) hd' dm st
    by (simp add: parse_body_def required_fields_def)
  with lines show ?thesis
    by (simp add: verify_def)
qed

theorem build_message_never_parses_witness:
  "parse_body (str_split LF (build_message (isoformat stub_externals) test_body)) =
     Inl BodyDamaged \<and>
   verify stub_externals (build_message (isoformat stub_externals) test_body) None =
     Inl BodyDamaged"
proof -
  let ?msg = "build_message (isoformat stub_externals) test_body"
  let ?d = "\<lparr>version = 2, address = ''0xabc'', body = ?msg, signature = ''0x00''\<rparr>"
  have h0: "\<forall>l \<in> set (message_lines (isoformat stub_externals) test_body). LF \<notin> set l"
    by code_simp
  have h1: "decrypt stub_externals ?msg = Inr ?d"
    by code_simp
  from build_message_never_parses [OF h0, of stub_externals ?msg ?d None] h1 show ?thesis
    by simp
qed



text \<open>
  C3, as stated: whenever the caller supplies \<^verbatim>\<open>opts.domain\<close> and it differs from the
  parsed domain, \<^verbatim>\<open>verify\<close> raises "Inappropriate token domain". It fails for the
  empty string, which the guard \<^verbatim>\<open>opts.get('domain') and ...\<close> takes for no domain:
  the token below carries the domain \<^verbatim>\<open>iq.wiki\<close> and verifies under
  \<^verbatim>\<open>opts = {'domain': ''}\<close>.
\<close>

theorem verify_empty_opts_domain_counterexample:
  "verify stub_externals (lower_case_body ''2026-01-01T00:00:00'' [])
     (Some \<lparr>opts_domain = Some []\<rparr>) =
   Inr (''0xabc'',
        [(''web3_token_version'', ''2''), (''issued_at'', ''2024-01-01T00:00:00''),
         (''expiration_time'', ''2026-01-01T00:00:00''), (''not_before'', []),
         (''Web3_Token_Version'', ''2''), (''domain'', ''iq.wiki'')])"
  by code_simp

text \<open>
  C3, amended: for every token that passes the earlier steps and every \<^verbatim>\<open>opts\<close>,
  \<^verbatim>\<open>verify\<close> raises "Inappropriate token domain" if \<^verbatim>\<open>opts.domain\<close> is a
  non-empty string that differs from the parsed domain (also when the token has no
  domain), and returns the address and the parsed body if \<^verbatim>\<open>opts\<close> is absent,
  \<^verbatim>\<open>opts.domain\<close> is absent or empty, or it equals the parsed domain.
\<close>

theorem verify_domain_check:
  assumes "decrypt ext token = Inr d" and "version d \<noteq> 1"
    and "parse_body (str_split LF (body d)) = Inr pb"
    and "check_expiration ext pb = Inr ()"
    and "check_not_before ext pb = Inr ()"
  shows "(opts = None \<longrightarrow> verify ext token opts = Inr (address d, pb)) \<and>
         (\<forall>os. opts = Some os \<longrightarrow>
            verify ext token opts =
              (case opts_domain os of
                 None \<Rightarrow> Inr (address d, pb)
               | Some dm \<Rightarrow>
                   if dm \<noteq> [] \<and> map_of pb ''domain'' \<noteq> Some dm then Inl InappropriateDomain
                   else Inr (address d, pb)))"
  using verify_after_parse [OF assms(1,2,3)] assms(4,5)
  by (auto simp: check_domain_def split: option.splits)

theorem verify_domain_check_witness:
  "verify stub_externals (lower_case_body ''2026-01-01T00:00:00'' [])
     (Some \<lparr>opts_domain = Some ''some-other.domain''\<rparr>) = Inl InappropriateDomain \<and>
   verify stub_externals (lower_case_body ''2026-01-01T00:00:00'' []) None =
     Inr (''0xabc'',
        [(''web3_token_version'', ''2''), (''issued_at'', ''2024-01-01T00:00:00''),
         (''expiration_time'', ''2026-01-01T00:00:00''), (''not_before'', []),
         (''Web3_Token_Version'', ''2''), (''domain'', ''iq.wiki'')])"
proof -
  let ?tok = "lower_case_body ''2026-01-01T00:00:00'' []"
  let ?d = "\<lparr>version = 2, address = ''0xabc'', body = ?tok, signature = ''0x00''\<rparr>"
  let ?pb = "[(''web3_token_version'', ''2''), (''issued_at'', ''2024-01-01T00:00:00''),
       (''expiration_time'', ''2026-01-01T00:00:00''), (''not_before'', []),
       (''Web3_Token_Version'', ''2''), (''domain'', ''iq.wiki'')]"
  have h1: "decrypt stub_externals ?tok = Inr ?d"
    by code_simp
  have h2: "version ?d \<noteq> 1"
    by simp
  have h3: "parse_body (str_split LF (body ?d)) = Inr ?pb"
    by code_simp
  have h4: "check_expiration stub_externals ?pb = Inr ()"
    by code_simp
  have h5: "check_not_before stub_externals ?pb = Inr ()"
    by code_simp
  from verify_domain_check [OF h1 h2 h3 h4 h5, of "Some \<lparr>opts_domain = Some ''some-other.domain''\<rparr>"]
    verify_domain_check [OF h1 h2 h3 h4 h5, of None]
  show ?thesis
    by simp
qed

text \<open>
  C4. The duration resolver returns a parse failure for every string with an unknown
  unit. The code does not: the pattern accepts any one or two of the letters
  \<^verbatim>\<open>d\<close>, \<^verbatim>\<open>h\<close>, \<^verbatim>\<open>m\<close>, \<^verbatim>\<open>s\<close>, and a unit that is none of
  \<^verbatim>\<open>d\<close>, \<^verbatim>\<open>h\<close>, \<^verbatim>\<open>m\<close>, \<^verbatim>\<open>s\<close>, \<^verbatim>\<open>ms\<close> is looked up with the default 0,
  so \<^verbatim>\<open>ms("1dd")\<close> is the millisecond count 0 and not a failure. (The seven examples
  of the claim hold: lemma \<open>ms_examples\<close>.)
\<close>

theorem ms_unknown_unit_zero: "ms ''1dd'' = Some 0"
  by code_simp

text \<open>
  C5. \<^verbatim>\<open>build_message\<close> is a function of the claims and of the rendering of
  timestamps alone (it reads neither the clock nor the random source), and its text
  is the lines of the specification joined by single line feeds: the banner and a
  blank line when the domain is a non-empty string, the statement and a blank line
  when it is a non-empty string, then the headers that are not None in the order
  URI, Web3 Token Version, Chain ID, Nonce, Issued At, Expiration Time, Not Before,
  Request ID. There is at least one line and the last line is not blank.
\<close>

theorem build_message_layout:
  "build_message fmt p = str_join [LF] (message_lines fmt p) \<and>
   message_lines fmt p \<noteq> [] \<and> last (message_lines fmt p) \<noteq> []"
  using build_message_eq_lines [of fmt p] message_lines_nonempty [of fmt p]
    message_lines_last [of fmt p]
  by simp

theorem build_message_layout_witness:
  "build_message (isoformat stub_externals) test_body =
     ''iq.wiki wants you to sign in with your Ethereum account.'' @ [LF, LF] @
     ''Test'' @ [LF, LF] @
     ''Web3 Token Version: 2'' @ [LF] @
     ''Issued At: 2025-01-01T00:00:00'' @ [LF] @
     ''Expiration Time: 2026-01-01T00:00:00'' @ [LF] @
     ''Not Before: 2024-01-01T00:00:00''"
proof -
  have "str_join [LF] (message_lines (isoformat stub_externals) test_body) =
     ''iq.wiki wants you to sign in with your Ethereum account.'' @ [LF, LF] @
     ''Test'' @ [LF, LF] @
     ''Web3 Token Version: 2'' @ [LF] @
     ''Issued At: 2025-01-01T00:00:00'' @ [LF] @
     ''Expiration Time: 2026-01-01T00:00:00'' @ [LF] @
     ''Not Before: 2024-01-01T00:00:00''"
    by code_simp
  with build_message_layout [of "isoformat stub_externals" test_body] show ?thesis
    by simp
qed

text \<open>
  C6. \<^verbatim>\<open>split_sections\<close> starts a new, empty group at every empty line and keeps no
  empty line: it computes the specification's partition, there is one group more than
  there are empty lines, the groups hold the non-empty lines in order, and putting one
  empty line between the groups gives the input back. There is always at least one
  group; lines without an empty line form exactly one group; and the lines of
  \<^verbatim>\<open>"a\n\nb\n\nc"\<close> form the groups \<^verbatim>\<open>[["a"],["b"],["c"]]\<close>.
\<close>

theorem split_sections_partition:
  "split_sections lines \<noteq> [] \<and>
   split_sections lines = split_sections_spec lines \<and>
   length (split_sections lines) = Suc (length (filter (\<lambda>l. l = []) lines)) \<and>
   concat (split_sections lines) = filter (\<lambda>l. l \<noteq> []) lines \<and>
   (\<forall>g \<in> set (split_sections lines). [] \<notin> set g) \<and>
   join_sections (split_sections lines) = lines \<and>
   ([] \<notin> set lines \<longrightarrow> split_sections lines = [lines]) \<and>
   split_sections (str_split LF (''a'' @ [LF, LF] @ ''b'' @ [LF, LF] @ ''c'')) =
     [[''a''], [''b''], [''c'']]"
proof -
  have "split_sections (str_split LF (''a'' @ [LF, LF] @ ''b'' @ [LF, LF] @ ''c'')) =
          [[''a''], [''b''], [''c'']]"
    by code_simp
  then show ?thesis
    using spec_no_empty_line [of _ lines]
    by (simp add: split_sections_eq_spec split_sections_spec_nonempty spec_length
        spec_concat spec_join spec_single)
qed

theorem split_sections_partition_witness:
  "split_sections [''URI: https://iq.wiki'', ''Nonce: 7''] =
     [[''URI: https://iq.wiki'', ''Nonce: 7'']]"
  using split_sections_partition [of "[''URI: https://iq.wiki'', ''Nonce: 7'']"]
  by simp




text \<open>
  C8, as stated: \<^verbatim>\<open>decrypt\<close> fails with the missing-version error on every
  well-formed token whose body lacks the version pattern, whatever the recovery
  capability does. It fails: \<^verbatim>\<open>decrypt\<close> calls the recovery capability before
  \<^verbatim>\<open>get_version\<close>, so when recovery raises on such a token, that exception is the
  outcome.
\<close>

theorem decrypt_recovery_first_counterexample:
  "version_search ''no version tag'' = None \<and>
   decrypt (stub_externals\<lparr>recover_message := \<lambda>b sg. None\<rparr>) ''no version tag'' =
     Inl RecoverFailed"
  by code_simp

text \<open>
  C8, amended: \<^verbatim>\<open>decrypt\<close> recovers the address before it extracts the version. For
  every token that decodes to a JSON object with a non-empty string body and a
  non-empty string signature, and whose body lacks the pattern
  \<^verbatim>\<open>Web3[\s-]+Token[\s-]+Version: <digit>\<close>, \<^verbatim>\<open>decrypt\<close> fails with the exception
  of \<^verbatim>\<open>bytes.fromhex\<close> if the signature is no hex string, else with the exception
  of the recovery capability if that raises, and with the missing-version error
  otherwise.
\<close>

theorem decrypt_missing_version:
  assumes "token \<noteq> []"
    and "b64decode_utf8 ext token = Some decoded" and "decoded \<noteq> []"
    and "json_loads ext decoded = Some (JObj dict)"
    and "map_of dict ''body'' = Some (JStr b)" and "b \<noteq> []"
    and "map_of dict ''signature'' = Some (JStr sg)" and "sg \<noteq> []"
    and "version_search b = None"
  shows "decrypt ext token =
           (case bytes_fromhex ext (if startswith sg ''0x'' then drop 2 sg else sg) of
              None \<Rightarrow> Inl InvalidHex
            | Some signature_bytes \<Rightarrow>
                (case recover_message ext (JStr b) signature_bytes of
                   None \<Rightarrow> Inl RecoverFailed
                 | Some addr \<Rightarrow> Inl MissingVersion))"
  using assms by (simp add: decrypt_def get_version_def split: option.splits)

theorem decrypt_missing_version_witness:
  "decrypt stub_externals ''no version tag'' = Inl MissingVersion"
proof -
  have h: "version_search ''no version tag'' = None"
    by code_simp
  from decrypt_missing_version [of "''no version tag''" stub_externals "''no version tag''"
      "[(''signature'', JStr ''0x00''), (''body'', JStr ''no version tag'')]"
      "''no version tag''" "''0x00''", OF _ _ _ _ _ _ _ _ h]
  show ?thesis
    by (simp add: stub_externals_def)
qed

text \<open>
  C9. For every options dict in which a string value contains a line feed, or the
  domain is present and no valid hostname, or the uri is present and no valid URL, or
  the chain id is present and no number, \<^verbatim>\<open>sign\<close> fails with the error of
  \<^verbatim>\<open>validate_params\<close> and its trace is empty: no message was built and the signer
  was not called. The same holds for an expiry string with a line feed passed in
  place of the dict.
\<close>

theorem sign_rejects_invalid_params:
  "((\<exists>k v. (k, v) \<in> set params \<and> has_lf v) \<or>
    fails_check params ''domain'' (\<lambda>v. is_str v \<and> is_valid_domain v) \<or>
    fails_check params ''uri'' (\<lambda>v. is_str v \<and> is_url ext v) \<or>
    fails_check params ''chain_id'' is_number \<longrightarrow>
    (\<exists>e. is_validation_error e \<and> validate_params ext params = Inl e \<and>
         sign ext signer (OptsDict params) = (Inl e, []))) \<and>
   (LF \<in> set s \<longrightarrow>
      sign ext signer (OptsStr s) = (Inl (OptionHasLF ''expires_in''), []))"
proof (intro conjI impI)
  assume "(\<exists>k v. (k, v) \<in> set params \<and> has_lf v) \<or>
    fails_check params ''domain'' (\<lambda>v. is_str v \<and> is_valid_domain v) \<or>
    fails_check params ''uri'' (\<lambda>v. is_str v \<and> is_url ext v) \<or>
    fails_check params ''chain_id'' is_number"
  from validate_params_rejects [OF this]
  obtain e where "is_validation_error e" and "validate_params ext params = Inl e"
    by blast
  then show "\<exists>e. is_validation_error e \<and> validate_params ext params = Inl e \<and>
         sign ext signer (OptsDict params) = (Inl e, [])"
    by (simp add: sign_def)
next
  assume "LF \<in> set s"
  then show "sign ext signer (OptsStr s) = (Inl (OptionHasLF ''expires_in''), [])"
    by (simp add: sign_def validate_params_def)
qed

theorem sign_rejects_invalid_params_witness:
  "sign stub_externals (\<lambda>m. Some (PStr ''0x00''))
     (OptsDict [(''domain'', PStr ''iq.wiki''), (''chain_id'', PStr ''ssssa23dsa'')]) =
     (Inl ChainIdNotInt, []) \<and>
   sign stub_externals (\<lambda>m. Some (PStr ''0x00'')) (OptsStr [CHR ''1'', CHR ''d'', LF]) =
     (Inl (OptionHasLF ''expires_in''), [])"
proof -
  let ?params = "[(''domain'', PStr ''iq.wiki''), (''chain_id'', PStr ''ssssa23dsa'')]"
  have h: "fails_check ?params ''chain_id'' is_number"
    by (simp add: fails_check_def)
  have v: "validate_params stub_externals ?params = Inl ChainIdNotInt"
    by code_simp
  have l: "LF \<in> set [CHR ''1'', CHR ''d'', LF]"
    by simp
  from sign_rejects_invalid_params [of ?params stub_externals "\<lambda>m. Some (PStr ''0x00'')"
      "[CHR ''1'', CHR ''d'', LF]"] h v l
  show ?thesis by auto
qed

text \<open>
  C10. \<^verbatim>\<open>parse_body\<close> is not total on bodies that decode. A body whose first line
  is empty and that has no other empty line has two sections, the first of them
  empty; a body with two empty lines in a row and no other empty line has three, the
  second of them empty. \<^verbatim>\<open>extract_token_statement\<close> indexes into the empty group.
  For every token that \<^verbatim>\<open>decrypt\<close> accepts with such a body (version other than 1),
  \<^verbatim>\<open>parse_body\<close> and \<^verbatim>\<open>verify\<close> end with IndexError, not with "Decrypted body
  is damaged".
\<close>

theorem verify_IndexError_on_empty_group:
  assumes "decrypt ext token = Inr d" and "version d \<noteq> 1"
    and "str_split LF (body d) = [] # hs \<or> str_split LF (body d) = g @ [] # [] # hs"
    and "[] \<notin> set g" and "[] \<notin> set hs"
  shows "parse_body (str_split LF (body d)) = Inl IndexError \<and>
         verify ext token opts = Inl IndexError"
proof -
  from assms(3-5) have "parse_body (str_split LF (body d)) = Inl IndexError"
    using parse_body_empty_first_group [of hs] parse_body_empty_second_group [of g hs]
    by auto
  with assms(1,2) show ?thesis
    by (simp add: verify_def)
qed

theorem verify_IndexError_on_empty_group_witness:
  "verify stub_externals (LF # ''Web3 Token Version: 2'') None = Inl IndexError \<and>
   verify stub_externals (''Test'' @ [LF, LF, LF] @ ''Web3 Token Version: 2'') None =
     Inl IndexError"
proof -
  let ?b1 = "LF # ''Web3 Token Version: 2''"
  let ?b2 = "''Test'' @ [LF, LF, LF] @ ''Web3 Token Version: 2''"
  let ?d1 = "\<lparr>version = 2, address = ''0xabc'', body = ?b1, signature = ''0x00''\<rparr>"
  let ?d2 = "\<lparr>version = 2, address = ''0xabc'', body = ?b2, signature = ''0x00''\<rparr>"
  have h1: "decrypt stub_externals ?b1 = Inr ?d1"
    by code_simp
  have h2: "decrypt stub_externals ?b2 = Inr ?d2"
    by code_simp
  have s1: "str_split LF (body ?d1) = [] # [''Web3 Token Version: 2'']"
    by code_simp
  have s2: "str_split LF (body ?d2) = [''Test''] @ [] # [] # [''Web3 Token Version: 2'']"
    by code_simp
  from verify_IndexError_on_empty_group [OF h1, of "[''Web3 Token Version: 2'']" "[]" None] s1
    verify_IndexError_on_empty_group
      [OF h2, of "[''Web3 Token Version: 2'']" "[''Test'']" None] s2
  show ?thesis
    by simp
qed

end
